theory Spec2Isabelle
  imports Main "HOL-Library.Sublist"
begin

section \<open>SmartNixieTube: state model and command-frame encoding\<close>

text \<open>
  A shallow embedding of \<^verbatim>\<open>SmartNixieTube.py\<close>. Python exceptions are values of
  \<open>error\<close>; an operation that mutates an object is a function from the object to a pair
  of the exception raised (\<open>None\<close> when the call returns normally) and the object as the
  call leaves it, so that a mutation made before a \<^verbatim>\<open>raise\<close> stays visible.
\<close>

subsection \<open>Exceptions and dynamically typed arguments\<close>

datatype error =
    TypeError string
  | ValueError string
  | IndexError
  | AssertionError string
  | ConnectionError string

datatype pyval = PyBool bool | PyInt int | PyStr string | PyNone

definition and_then :: "('s \<Rightarrow> error option \<times> 's) \<Rightarrow> ('s \<Rightarrow> error option \<times> 's) \<Rightarrow> 's \<Rightarrow> error option \<times> 's" where
  "and_then f g s = (case f s of (None, s') \<Rightarrow> g s' | (Some e, s') \<Rightarrow> (Some e, s'))"

subsection \<open>Python string primitives used by the module\<close>

definition digit_char :: "nat \<Rightarrow> char" where
  "digit_char k = ''0123456789'' ! (k mod 10)"

fun str_nat :: "nat \<Rightarrow> string" where
  "str_nat n = (if n < 10 then [digit_char n] else str_nat (n div 10) @ [digit_char (n mod 10)])"

declare str_nat.simps [simp del]

text \<open>\<^verbatim>\<open>str(number)\<close> on a Python int.\<close>

definition str_int :: "int \<Rightarrow> string" where
  "str_int n = (if n < 0 then CHR ''-'' # str_nat (nat (- n)) else str_nat (nat n))"

text \<open>\<^verbatim>\<open>s.zfill(width)\<close>: zeros go after a leading sign.\<close>

definition zfill :: "int \<Rightarrow> string \<Rightarrow> string" where
  "zfill width s =
     (case s of
        [] \<Rightarrow> replicate (nat width) CHR ''0''
      | c # rest \<Rightarrow>
          if c = CHR ''+'' \<or> c = CHR ''-''
          then c # replicate (nat width - length s) CHR ''0'' @ rest
          else replicate (nat width - length s) CHR ''0'' @ s)"

text \<open>\<^verbatim>\<open>value in text\<close> on strings: \<open>value\<close> occurs contiguously in \<open>text\<close>.\<close>

fun starts_with :: "string \<Rightarrow> string \<Rightarrow> bool" where
  "starts_with [] s = True"
| "starts_with (c # v) [] = False"
| "starts_with (c # v) (c' # s) = (c = c' \<and> starts_with v s)"

fun str_in :: "string \<Rightarrow> string \<Rightarrow> bool" where
  "str_in v [] = (v = [])"
| "str_in v (c # s) = (starts_with v (c # s) \<or> str_in v s)"

subsection \<open>One tube\<close>

record tube =
  digit :: string
  left_decimal_point :: bool
  right_decimal_point :: bool
  brightness :: int
  red :: int
  green :: int
  blue :: int

definition set_digit :: "string \<Rightarrow> tube \<Rightarrow> error option \<times> tube" where
  "set_digit v t =
     (if \<not> str_in v ''-0123456789''
      then (None, t\<lparr>digit := ''-''\<rparr>)
      else (None, t\<lparr>digit := v\<rparr>))"

definition set_left_decimal_point :: "pyval \<Rightarrow> tube \<Rightarrow> error option \<times> tube" where
  "set_left_decimal_point v t =
     (case v of
        PyBool b \<Rightarrow> (None, t\<lparr>left_decimal_point := b\<rparr>)
      | _ \<Rightarrow> (Some (TypeError ''Left decimal point must be of type bool''), t))"

definition set_right_decimal_point :: "pyval \<Rightarrow> tube \<Rightarrow> error option \<times> tube" where
  "set_right_decimal_point v t =
     (case v of
        PyBool b \<Rightarrow> (None, t\<lparr>right_decimal_point := b\<rparr>)
      | _ \<Rightarrow> (Some (TypeError ''Right decimal point must be of type bool''), t))"

definition set_brightness :: "int \<Rightarrow> tube \<Rightarrow> error option \<times> tube" where
  "set_brightness v t =
     (if v < 0 \<or> v > 255
      then (Some (ValueError ''Brightness must be between 0-255''), t)
      else (None, t\<lparr>brightness := v\<rparr>))"

definition set_red :: "int \<Rightarrow> tube \<Rightarrow> error option \<times> tube" where
  "set_red v t =
     (if v < 0 \<or> v > 255
      then (Some (ValueError ''Red must be between 0-255''), t)
      else (None, t\<lparr>red := v\<rparr>))"

definition set_blue :: "int \<Rightarrow> tube \<Rightarrow> error option \<times> tube" where
  "set_blue v t =
     (if v < 0 \<or> v > 255
      then (Some (ValueError ''Blue must be between 0-255''), t)
      else (None, t\<lparr>blue := v\<rparr>))"

definition set_green :: "int \<Rightarrow> tube \<Rightarrow> error option \<times> tube" where
  "set_green v t =
     (if v < 0 \<or> v > 255
      then (Some (ValueError ''Green must be between 0-255''), t)
      else (None, t\<lparr>green := v\<rparr>))"

definition turn_off :: "tube \<Rightarrow> error option \<times> tube" where
  "turn_off =
     and_then (set_digit ''-'')
    (and_then (set_left_decimal_point (PyBool False))
    (and_then (set_right_decimal_point (PyBool False))
    (and_then (set_brightness 0)
    (and_then (set_red 0)
    (and_then (set_green 0)
              (set_blue 0))))))"

text \<open>\<^verbatim>\<open>'%03d' % number\<close>: at least three characters, zero-padded after the sign.\<close>

definition convert_digit_to_string_with_leading_zeros :: "int \<Rightarrow> string" where
  "convert_digit_to_string_with_leading_zeros number =
     (if number < 0
      then CHR ''-'' # replicate (2 - length (str_nat (nat (- number)))) CHR ''0''
             @ str_nat (nat (- number))
      else replicate (3 - length (str_nat (nat number))) CHR ''0'' @ str_nat (nat number))"

definition convert_from_bool_to_yn :: "bool \<Rightarrow> string" where
  "convert_from_bool_to_yn boolean = (if boolean then ''Y'' else ''N'')"

definition tube_generate_command_string :: "tube \<Rightarrow> string" where
  "tube_generate_command_string t =
     ''$'' @
     digit t @ '','' @
     convert_from_bool_to_yn (left_decimal_point t) @ '','' @
     convert_from_bool_to_yn (right_decimal_point t) @ '','' @
     convert_digit_to_string_with_leading_zeros (brightness t) @ '','' @
     convert_digit_to_string_with_leading_zeros (red t) @ '','' @
     convert_digit_to_string_with_leading_zeros (green t) @ '','' @
     convert_digit_to_string_with_leading_zeros (blue t)"

text \<open>
  \<^verbatim>\<open>SmartNixieTube(digit, left_decimal_point=..., ...)\<close>: the constructor assigns every
  field through its setter, in this order; no object exists when a setter raises.
\<close>

definition blank_fields :: tube where
  "blank_fields = \<lparr>digit = [], left_decimal_point = False, right_decimal_point = False,
                   brightness = 0, red = 0, green = 0, blue = 0\<rparr>"

definition tube_init :: "string \<Rightarrow> pyval \<Rightarrow> pyval \<Rightarrow> int \<Rightarrow> int \<Rightarrow> int \<Rightarrow> int \<Rightarrow> error + tube" where
  "tube_init d l r b rd g bl =
     (case (and_then (set_digit d)
           (and_then (set_left_decimal_point l)
           (and_then (set_right_decimal_point r)
           (and_then (set_brightness b)
           (and_then (set_red rd)
           (and_then (set_green g)
                     (set_blue bl))))))) blank_fields of
        (None, t) \<Rightarrow> Inr t
      | (Some e, t) \<Rightarrow> Inl e)"

text \<open>\<^verbatim>\<open>SmartNixieTube()\<close> with every default argument.\<close>

definition default_tube :: "error + tube" where
  "default_tube = tube_init ''-'' (PyBool False) (PyBool False) 0 0 0 0"

subsection \<open>The serial port\<close>

text \<open>
  The port object of the serial library, as far as the module uses it: whether it is
  open, whether its next flush or write raises (and with which message), and the
  strings written to it so far.
\<close>

record serial_port =
  is_open :: bool
  fault :: "string option"
  written :: "string list"

definition port_close :: "serial_port \<Rightarrow> serial_port" where
  "port_close p = p\<lparr>is_open := False\<rparr>"

subsection \<open>The display\<close>

record display =
  number_of_tubes_in_display :: int
  tubes :: "tube list"
  display_brightness :: int
  display_red :: int
  display_green :: int
  display_blue :: int
  serial_port_name :: string
  port :: serial_port

text \<open>
  \<^verbatim>\<open>for i in range(n): self.tubes[i].field = value\<close>: the loop of the four bulk
  setters, over the indices; \<^verbatim>\<open>self.tubes[i]\<close> raises IndexError past the end.
\<close>

fun fan_out :: "(tube \<Rightarrow> error option \<times> tube) \<Rightarrow> nat list \<Rightarrow> tube list \<Rightarrow> error option \<times> tube list" where
  "fan_out f [] ts = (None, ts)"
| "fan_out f (i # is) ts =
     (if i < length ts
      then (case f (ts ! i) of
              (Some e, t') \<Rightarrow> (Some e, ts[i := t'])
            | (None, t') \<Rightarrow> fan_out f is (ts[i := t']))
      else (Some IndexError, ts))"

definition display_set_brightness :: "int \<Rightarrow> display \<Rightarrow> error option \<times> display" where
  "display_set_brightness v d =
     (if v < 0 \<or> v > 255
      then (Some (ValueError ''Brightness must be between 0-255''), d)
      else (let d1 = d\<lparr>display_brightness := v\<rparr>;
                (e, ts) = fan_out (set_brightness (display_brightness d1))
                            [0..<nat (number_of_tubes_in_display d1)] (tubes d1)
            in (e, d1\<lparr>tubes := ts\<rparr>)))"

definition display_set_red :: "int \<Rightarrow> display \<Rightarrow> error option \<times> display" where
  "display_set_red v d =
     (if v < 0 \<or> v > 255
      then (Some (ValueError ''Red must be between 0-255''), d)
      else (let d1 = d\<lparr>display_red := v\<rparr>;
                (e, ts) = fan_out (set_red (display_red d1))
                            [0..<nat (number_of_tubes_in_display d1)] (tubes d1)
            in (e, d1\<lparr>tubes := ts\<rparr>)))"

definition display_set_blue :: "int \<Rightarrow> display \<Rightarrow> error option \<times> display" where
  "display_set_blue v d =
     (if v < 0 \<or> v > 255
      then (Some (ValueError ''Blue must be between 0-255''), d)
      else (let d1 = d\<lparr>display_blue := v\<rparr>;
                (e, ts) = fan_out (set_blue (display_blue d1))
                            [0..<nat (number_of_tubes_in_display d1)] (tubes d1)
            in (e, d1\<lparr>tubes := ts\<rparr>)))"

definition display_set_green :: "int \<Rightarrow> display \<Rightarrow> error option \<times> display" where
  "display_set_green v d =
     (if v < 0 \<or> v > 255
      then (Some (ValueError ''Green must be between 0-255''), d)
      else (let d1 = d\<lparr>display_green := v\<rparr>;
                (e, ts) = fan_out (set_green (display_green d1))
                            [0..<nat (number_of_tubes_in_display d1)] (tubes d1)
            in (e, d1\<lparr>tubes := ts\<rparr>)))"

text \<open>\<^verbatim>\<open>for tube in self.tubes: body(tube)\<close>, stopping at the first exception.\<close>

fun for_each_tube :: "(tube \<Rightarrow> error option \<times> tube) \<Rightarrow> tube list \<Rightarrow> error option \<times> tube list" where
  "for_each_tube f [] = (None, [])"
| "for_each_tube f (t # ts) =
     (case f t of
        (Some e, t') \<Rightarrow> (Some e, t' # ts)
      | (None, t') \<Rightarrow> (case for_each_tube f ts of (e, ts') \<Rightarrow> (e, t' # ts')))"

definition reset_tube :: "tube \<Rightarrow> error option \<times> tube" where
  "reset_tube =
     and_then (set_digit ''-'')
    (and_then (set_brightness 0)
    (and_then (set_red 0)
    (and_then (set_green 0)
              (set_blue 0))))"

definition reset :: "display \<Rightarrow> error option \<times> display" where
  "reset d = (case for_each_tube reset_tube (tubes d) of (e, ts) \<Rightarrow> (e, d\<lparr>tubes := ts\<rparr>))"

definition display_generate_command_string :: "display \<Rightarrow> string" where
  "display_generate_command_string d =
     fold (\<lambda>tube command_string. tube_generate_command_string tube @ command_string)
       (tubes d) [] @ ''!''"

text \<open>
  The digit loop of \<^verbatim>\<open>set_display_number\<close>: tube number \<open>i\<close> takes
  \<^verbatim>\<open>display_number[i]\<close>, which raises IndexError past the end of the string.
\<close>

fun assign_digits :: "string \<Rightarrow> nat \<Rightarrow> tube list \<Rightarrow> error option \<times> tube list" where
  "assign_digits display_number i [] = (None, [])"
| "assign_digits display_number i (t # ts) =
     (if i < length display_number
      then (case set_digit [display_number ! i] t of
              (Some e, t') \<Rightarrow> (Some e, t' # ts)
            | (None, t') \<Rightarrow>
                (case assign_digits display_number (i + 1) ts of (e, ts') \<Rightarrow> (e, t' # ts')))
      else (Some IndexError, t # ts))"

text \<open>
  \<^verbatim>\<open>set_display_number\<close>. The guard of the third branch is
  \<^verbatim>\<open>int(log10(number)) + 1 > self.number_of_tubes_in_display\<close>, where \<^verbatim>\<open>log10\<close>
  is the floating-point function of Python's \<^verbatim>\<open>math\<close> module. The model takes the
  function \<open>number \<mapsto> int(log10(number))\<close> as the parameter \<open>int_log10\<close>; the branch is
  reached with positive numbers only.
\<close>

definition set_display_number :: "(int \<Rightarrow> int) \<Rightarrow> int \<Rightarrow> display \<Rightarrow> error option \<times> display" where
  "set_display_number int_log10 number d =
     (if number < 0 then (Some (ValueError ''Display number must be positive''), d)
      else if number = 0 then
        (case assign_digits (zfill (number_of_tubes_in_display d) (str_int number)) 0 (tubes d) of
           (e, ts) \<Rightarrow> (e, d\<lparr>tubes := ts\<rparr>))
      else if int_log10 number + 1 > number_of_tubes_in_display d then
        (Some (ValueError ''Not enough tubes to display all digits''), d)
      else
        (case assign_digits (zfill (number_of_tubes_in_display d) (str_int number)) 0 (tubes d) of
           (e, ts) \<Rightarrow> (e, d\<lparr>tubes := ts\<rparr>)))"

text \<open>
  \<^verbatim>\<open>send_command\<close>: nothing happens on a port that is not open (the \<^verbatim>\<open>if\<close> has no
  \<^verbatim>\<open>else\<close>); on an open port any exception of the flushes or of the write is
  re-raised as ConnectionError. The pause after the write is not part of the model.
\<close>

definition send_command :: "display \<Rightarrow> error option \<times> display" where
  "send_command d =
     (if is_open (port d)
      then (case fault (port d) of
              Some msg \<Rightarrow> (Some (ConnectionError msg), d)
            | None \<Rightarrow>
                (None, d\<lparr>port := (port d)\<lparr>written :=
                           written (port d) @ [display_generate_command_string d]\<rparr>\<rparr>))
      else (None, d))"

text \<open>
  The constructor. \<open>serial_Serial\<close> stands for the serial library's constructor: the
  port it opens for a name, or the exception it raises.
\<close>

definition display_init ::
  "(string \<Rightarrow> error + serial_port) \<Rightarrow> int \<Rightarrow> string \<Rightarrow> int \<Rightarrow> int \<Rightarrow> int \<Rightarrow> int \<Rightarrow> error + display" where
  "display_init serial_Serial n name b r g bl =
     (if n < 1 then Inl (ValueError ''number_of_tubes_in_display must be greater than 0'')
      else
        (case default_tube of
           Inl e \<Rightarrow> Inl e
         | Inr t0 \<Rightarrow>
            (case (and_then (display_set_brightness b)
                  (and_then (display_set_red r)
                  (and_then (display_set_green g)
                            (display_set_blue bl))))
                    \<lparr>number_of_tubes_in_display = n, tubes = replicate (nat n) t0,
                     display_brightness = 0, display_red = 0, display_green = 0,
                     display_blue = 0, serial_port_name = name,
                     port = \<lparr>is_open = False, fault = None, written = []\<rparr>\<rparr> of
               (Some e, d) \<Rightarrow> Inl e
             | (None, d) \<Rightarrow>
                 if name \<noteq> []
                 then (case serial_Serial name of
                         Inl e \<Rightarrow> Inl (AssertionError (''Error opening serial port '' @ name))
                       | Inr p \<Rightarrow> Inr (d\<lparr>port := p\<rparr>))
                 else Inl (AssertionError ''No serial port specified''))))"

text \<open>\<^verbatim>\<open>__del__\<close>: reset, send, close the port; every exception is swallowed.\<close>

definition display_del :: "display \<Rightarrow> display" where
  "display_del d =
     (case reset d of
        (Some e, d1) \<Rightarrow> d1
      | (None, d1) \<Rightarrow>
          (case send_command d1 of
             (Some e, d2) \<Rightarrow> d2
           | (None, d2) \<Rightarrow> d2\<lparr>port := port_close (port d2)\<rparr>))"

subsection \<open>Notions of the specification\<close>

text \<open>\<^verbatim>\<open>sep.join(parts)\<close>.\<close>

definition join_with :: "string \<Rightarrow> string list \<Rightarrow> string" where
  "join_with sep parts =
     (case parts of [] \<Rightarrow> [] | f # fs \<Rightarrow> f @ concat (map (\<lambda>g. sep @ g) fs))"

text \<open>
  The fragment of one Unit in the specification's sense: the seven fields
  DIGIT, LDP, RDP, BRIGHTNESS, RED, GREEN, BLUE joined by commas, without the leading
  dollar sign and without a trailing delimiter.
\<close>

definition encode_fragment :: "tube \<Rightarrow> string" where
  "encode_fragment t =
     join_with '',''
       [digit t,
        convert_from_bool_to_yn (left_decimal_point t),
        convert_from_bool_to_yn (right_decimal_point t),
        convert_digit_to_string_with_leading_zeros (brightness t),
        convert_digit_to_string_with_leading_zeros (red t),
        convert_digit_to_string_with_leading_zeros (green t),
        convert_digit_to_string_with_leading_zeros (blue t)]"

text \<open>The tube that \<^verbatim>\<open>turn_off\<close> leaves behind, and that the constructor makes by default.\<close>

definition off_tube :: tube where
  "off_tube = \<lparr>digit = ''-'', left_decimal_point = False, right_decimal_point = False,
               brightness = 0, red = 0, green = 0, blue = 0\<rparr>"

text \<open>The legal range of every field of a Unit, as the specification's data model has it.\<close>

definition legal_digit :: "string \<Rightarrow> bool" where
  "legal_digit s = (case s of [c] \<Rightarrow> c \<in> set ''0123456789-'' | _ \<Rightarrow> False)"

definition tube_ok :: "tube \<Rightarrow> bool" where
  "tube_ok t =
     (legal_digit (digit t) \<and>
      0 \<le> brightness t \<and> brightness t \<le> 255 \<and>
      0 \<le> red t \<and> red t \<le> 255 \<and>
      0 \<le> green t \<and> green t \<le> 255 \<and>
      0 \<le> blue t \<and> blue t \<le> 255)"

text \<open>
  A Display owns as many tubes as its \<^verbatim>\<open>number_of_tubes_in_display\<close> says: the
  constructor establishes it and no operation of the specification changes either side.
\<close>

definition display_ok :: "display \<Rightarrow> bool" where
  "display_ok d = (length (tubes d) = nat (number_of_tubes_in_display d))"

text \<open>Two concrete displays, as the constructor leaves them on an opened port.\<close>

definition three_tube_display :: display where
  "three_tube_display =
     \<lparr>number_of_tubes_in_display = 3, tubes = [off_tube, off_tube, off_tube],
      display_brightness = 0, display_red = 0, display_green = 0, display_blue = 0,
      serial_port_name = ''/dev/ttyUSB0'',
      port = \<lparr>is_open = True, fault = None, written = []\<rparr>\<rparr>"

definition fifteen_tube_display :: display where
  "fifteen_tube_display =
     \<lparr>number_of_tubes_in_display = 15, tubes = replicate 15 off_tube,
      display_brightness = 0, display_red = 0, display_green = 0, display_blue = 0,
      serial_port_name = ''/dev/ttyUSB0'',
      port = \<lparr>is_open = True, fault = None, written = []\<rparr>\<rparr>"

text \<open>The three-tube display after its port has been closed.\<close>

definition closed_display :: display where
  "closed_display = three_tube_display\<lparr>port := port_close (port three_tube_display)\<rparr>"

text \<open>
  The public interface as a language of operations. An operation on one tube is an
  attribute assignment or \<^verbatim>\<open>turn_off\<close>; an operation on a display is one of these on
  \<^verbatim>\<open>display.tubes[i]\<close> (IndexError past the end), a bulk setter, \<^verbatim>\<open>reset\<close>,
  \<^verbatim>\<open>set_display_number\<close> or \<^verbatim>\<open>send_command\<close>. A caller that catches an exception
  goes on with the object as the failed call left it.
\<close>

datatype tube_op =
    SetDigit string
  | SetLeftDecimalPoint pyval
  | SetRightDecimalPoint pyval
  | SetBrightness int
  | SetRed int
  | SetGreen int
  | SetBlue int
  | TurnOff

fun tube_do :: "tube_op \<Rightarrow> tube \<Rightarrow> error option \<times> tube" where
  "tube_do (SetDigit v) t = set_digit v t"
| "tube_do (SetLeftDecimalPoint v) t = set_left_decimal_point v t"
| "tube_do (SetRightDecimalPoint v) t = set_right_decimal_point v t"
| "tube_do (SetBrightness v) t = set_brightness v t"
| "tube_do (SetRed v) t = set_red v t"
| "tube_do (SetGreen v) t = set_green v t"
| "tube_do (SetBlue v) t = set_blue v t"
| "tube_do TurnOff t = turn_off t"

text \<open>The operations whose digit argument, if any, is a single character.\<close>

fun one_character :: "tube_op \<Rightarrow> bool" where
  "one_character (SetDigit v) = (length v = 1)"
| "one_character _ = True"

datatype display_op =
    OnTube nat tube_op
  | DisplaySetBrightness int
  | DisplaySetRed int
  | DisplaySetGreen int
  | DisplaySetBlue int
  | Reset
  | SetDisplayNumber int
  | SendCommand

fun display_do :: "(int \<Rightarrow> int) \<Rightarrow> display_op \<Rightarrow> display \<Rightarrow> error option \<times> display" where
  "display_do lg (OnTube i op) d =
     (if i < length (tubes d)
      then (case tube_do op (tubes d ! i) of (e, t') \<Rightarrow> (e, d\<lparr>tubes := (tubes d)[i := t']\<rparr>))
      else (Some IndexError, d))"
| "display_do lg (DisplaySetBrightness v) d = display_set_brightness v d"
| "display_do lg (DisplaySetRed v) d = display_set_red v d"
| "display_do lg (DisplaySetGreen v) d = display_set_green v d"
| "display_do lg (DisplaySetBlue v) d = display_set_blue v d"
| "display_do lg Reset d = reset d"
| "display_do lg (SetDisplayNumber n) d = set_display_number lg n d"
| "display_do lg SendCommand d = send_command d"

fun one_character_op :: "display_op \<Rightarrow> bool" where
  "one_character_op (OnTube i op) = one_character op"
| "one_character_op _ = True"

fun display_run :: "(int \<Rightarrow> int) \<Rightarrow> display_op list \<Rightarrow> display \<Rightarrow> display" where
  "display_run lg [] d = d"
| "display_run lg (op # ops) d = display_run lg ops (snd (display_do lg op d))"

definition tubes_ok :: "display \<Rightarrow> bool" where
  "tubes_ok d = list_all tube_ok (tubes d)"

section \<open>Properties\<close>

subsection \<open>Formatting helpers\<close>

lemma str_nat_0: "str_nat 0 = ''0''"
  by (simp add: str_nat.simps digit_char_def)

lemma leading_zeros_0: "convert_digit_to_string_with_leading_zeros 0 = ''000''"
  by (simp add: convert_digit_to_string_with_leading_zeros_def str_nat_0 numeral_2_eq_2)

lemma tube_command_is_dollar_fragment:
  "tube_generate_command_string t = ''$'' @ encode_fragment t"
  by (simp add: tube_generate_command_string_def encode_fragment_def join_with_def)

lemma fold_prepend: "fold (\<lambda>t cs. f t @ cs) ts acc = concat (map f (rev ts)) @ acc"
  by (induction ts arbitrary: acc) simp_all

lemma turn_off_result: "turn_off t = (None, off_tube)"
  by (simp add: turn_off_def and_then_def set_digit_def set_left_decimal_point_def
      set_right_decimal_point_def set_brightness_def set_red_def set_green_def set_blue_def
      off_tube_def)

subsection \<open>The frame\<close>

text \<open>
  C1. The frame of a Display is, for its Units \<open>U[0], ..., U[n-1]\<close>, the string
  \<open>"$" + fragment(U[n-1]) + ... + "$" + fragment(U[0]) + "!"\<close>: one fragment per Unit,
  the last Unit's fragment first, each fragment prefixed by a dollar sign, nothing
  between the fragments, and one exclamation mark at the end. It holds for every number
  of Units.
\<close>

theorem frame_is_reversed_fragments:
  "display_generate_command_string d =
     concat (map (\<lambda>u. ''$'' @ encode_fragment u) (rev (tubes d))) @ ''!''"
  unfolding display_generate_command_string_def fold_prepend
  by (simp add: tube_command_is_dollar_fragment)

subsection \<open>The fragment of one tube\<close>

text \<open>
  C2, as the code has it. The string a tube generates is the dollar sign followed by the
  seven comma-separated fields, with no trailing delimiter: the leading dollar sign is
  emitted by the tube itself, not added by the Display. \<^verbatim>\<open>turn_off\<close> never raises, and
  the string generated after it is \<open>$-,N,N,000,000,000,000\<close>.
\<close>

theorem tube_command_string_fields:
  "tube_generate_command_string t = ''$'' @ encode_fragment t \<and>
   fst (turn_off t) = None \<and>
   tube_generate_command_string (snd (turn_off t)) = ''$-,N,N,000,000,000,000''"
  by (simp add: tube_command_is_dollar_fragment turn_off_result encode_fragment_def
      join_with_def leading_zeros_0 convert_from_bool_to_yn_def off_tube_def)

text \<open>
  C2 as stated fails: after \<^verbatim>\<open>turn_off\<close> the tube's own string is not
  \<open>-,N,N,000,000,000,000\<close>, since it starts with the dollar sign.
\<close>

theorem tube_command_string_has_dollar:
  "tube_generate_command_string (snd (turn_off blank_fields)) \<noteq> ''-,N,N,000,000,000,000''"
  by (simp add: tube_generate_command_string_def)

subsection \<open>The digit setter\<close>

lemma starts_with_prefix: "starts_with v s = prefix v s"
  by (induction v s rule: starts_with.induct) simp_all

lemma str_in_sublist: "str_in v s = sublist v s"
  by (induction s) (simp_all add: starts_with_prefix sublist_Cons_right)

lemma str_in_single: "str_in [c] ''-0123456789'' = (c \<in> set ''0123456789-'')"
  by auto

lemma set_digit_no_error: "fst (set_digit v t) = None"
  by (simp add: set_digit_def)

text \<open>
  C8. Setting a Unit's digit to a single character \<open>c\<close> never raises; the stored digit
  is \<open>c\<close> when \<open>c\<close> is one of \<open>0\<close> to \<open>9\<close> or \<open>-\<close>, and \<open>-\<close> for every other character.
\<close>

theorem set_digit_single_character:
  "set_digit [c] t = (None, t\<lparr>digit := (if c \<in> set ''0123456789-'' then [c] else ''-'')\<rparr>)"
  unfolding set_digit_def str_in_single by simp

text \<open>
  C10. The validity test of the digit setter is a substring test against
  \<open>-0123456789\<close>: a string that occurs contiguously in it, the empty string and
  multi-character strings such as \<open>01\<close> and \<open>123\<close> included, is stored as it is, and
  every other string (\<open>10\<close>, for one) is replaced by \<open>-\<close>. The setter never raises.
\<close>

theorem set_digit_substring_test:
  "set_digit v t =
     (None, t\<lparr>digit := (if \<exists>ps ss. ''-0123456789'' = ps @ v @ ss then v else ''-'')\<rparr>) \<and>
   digit (snd (set_digit ''01'' t)) = ''01'' \<and>
   digit (snd (set_digit ''123'' t)) = ''123'' \<and>
   digit (snd (set_digit [] t)) = [] \<and>
   digit (snd (set_digit ''10'' t)) = ''-''"
proof -
  have "set_digit v t = (None, t\<lparr>digit := (if sublist v ''-0123456789'' then v else ''-'')\<rparr>)"
    unfolding set_digit_def str_in_sublist by simp
  then have "set_digit v t =
     (None, t\<lparr>digit := (if \<exists>ps ss. ''-0123456789'' = ps @ v @ ss then v else ''-'')\<rparr>)"
    unfolding sublist_def .
  moreover have "digit (snd (set_digit ''01'' t)) = ''01''" by (simp add: set_digit_def)
  moreover have "digit (snd (set_digit ''123'' t)) = ''123''" by (simp add: set_digit_def)
  moreover have "digit (snd (set_digit [] t)) = []" by (simp add: set_digit_def)
  moreover have "digit (snd (set_digit ''10'' t)) = ''-''" by (simp add: set_digit_def)
  ultimately show ?thesis by blast
qed

subsection \<open>Reset\<close>

lemma for_each_tube_total:
  "(\<And>t. f t = (None, g t)) \<Longrightarrow> for_each_tube f ts = (None, map g ts)"
  by (induction ts) simp_all

lemma reset_tube_result:
  "reset_tube t = (None, t\<lparr>digit := ''-'', brightness := 0, red := 0, green := 0, blue := 0\<rparr>)"
  by (simp add: reset_tube_def and_then_def set_digit_def set_brightness_def set_red_def
      set_green_def set_blue_def)

text \<open>
  C7. \<^verbatim>\<open>reset\<close> never raises and replaces every tube by one whose digit is \<open>-\<close>, whose
  brightness, red, green and blue are 0, and whose two decimal-point flags are the ones
  the tube had before.
\<close>

theorem reset_blanks_every_tube:
  "reset d =
     (None, d\<lparr>tubes := map (\<lambda>t. \<lparr>digit = ''-'',
                                  left_decimal_point = left_decimal_point t,
                                  right_decimal_point = right_decimal_point t,
                                  brightness = 0, red = 0, green = 0, blue = 0\<rparr>) (tubes d)\<rparr>)"
proof -
  have "for_each_tube reset_tube (tubes d) =
        (None, map (\<lambda>t. t\<lparr>digit := ''-'', brightness := 0, red := 0, green := 0, blue := 0\<rparr>)
                 (tubes d))"
    by (rule for_each_tube_total) (rule reset_tube_result)
  then show ?thesis by (simp add: reset_def)
qed

subsection \<open>Sending on a closed port\<close>

text \<open>
  C3, as the code has it. On a Display whose port is not open, \<^verbatim>\<open>send_command\<close>
  returns normally: it raises nothing, writes nothing and leaves the Display, its port
  included, as it was.
\<close>

theorem send_command_closed_port_is_silent:
  "\<not> is_open (port d) \<Longrightarrow> send_command d = (None, d)"
  by (simp add: send_command_def)

theorem send_command_closed_port_is_silent_witness:
  "\<not> is_open (port closed_display) \<and> send_command closed_display = (None, closed_display)"
  using send_command_closed_port_is_silent [of closed_display]
  by (simp add: closed_display_def port_close_def)

text \<open>
  C3 as stated fails: on the three-tube display with its port closed the call raises no
  exception at all.
\<close>

theorem send_command_closed_port_no_error:
  "fst (send_command closed_display) = None"
  by (simp add: send_command_def closed_display_def port_close_def)

subsection \<open>Decimal strings\<close>

lemma digit_char_in: "digit_char k \<in> set ''0123456789''"
proof -
  have "k mod 10 < length ''0123456789''" by simp
  then have "''0123456789'' ! (k mod 10) \<in> set ''0123456789''" by (rule nth_mem)
  then show ?thesis by (simp only: digit_char_def)
qed

lemma str_nat_digits: "set (str_nat n) \<subseteq> set ''0123456789''"
proof (induction n rule: str_nat.induct)
  case (1 n)
  show ?case
  proof (cases "n < 10")
    case True
    then show ?thesis using digit_char_in[of n] by (subst str_nat.simps) simp
  next
    case False
    then show ?thesis using 1 digit_char_in[of "n mod 10"] by (subst str_nat.simps) simp
  qed
qed

lemma str_nat_nonempty: "str_nat n \<noteq> []"
  by (subst str_nat.simps) simp

text \<open>
  The length of the decimal string of a positive number is its number of decimal digits:
  one more than the integer part of its base-10 logarithm.
\<close>

lemma str_nat_bounds: "0 < n \<Longrightarrow> 10 ^ (length (str_nat n) - 1) \<le> n \<and> n < 10 ^ length (str_nat n)"
proof (induction n rule: str_nat.induct)
  case (1 n)
  show ?case
  proof (cases "n < 10")
    case True
    then have "str_nat n = [digit_char n]" by (subst str_nat.simps) simp
    with True 1(2) show ?thesis by simp
  next
    case False
    then have eq: "str_nat n = str_nat (n div 10) @ [digit_char (n mod 10)]" by (subst str_nat.simps) simp
    from False have pos: "0 < n div 10" by simp
    from 1(1)[OF False pos] have ih: "10 ^ (length (str_nat (n div 10)) - 1) \<le> n div 10" "n div 10 < 10 ^ length (str_nat (n div 10))" by simp_all
    have len: "length (str_nat (n div 10)) > 0" using str_nat_nonempty by simp
    have "10 ^ (length (str_nat n) - 1) = 10 * 10 ^ (length (str_nat (n div 10)) - 1)"
      using len eq by (cases "length (str_nat (n div 10))") simp_all
    also have "\<dots> \<le> 10 * (n div 10)" using ih(1) by simp
    also have "\<dots> \<le> n" by simp
    finally have lo: "10 ^ (length (str_nat n) - 1) \<le> n" .
    have "n div 10 + 1 \<le> 10 ^ length (str_nat (n div 10))" using ih(2) by simp
    then have "10 * (n div 10 + 1) \<le> 10 * 10 ^ length (str_nat (n div 10))" by (rule mult_le_mono2)
    moreover have "n < 10 * (n div 10 + 1)" by presburger
    ultimately have "n < 10 ^ length (str_nat n)" using eq by simp
    with lo show ?thesis by simp
  qed
qed

lemma length_zfill: "length (zfill w s) = max (nat w) (length s)"
  by (auto simp: zfill_def split: list.splits)

lemma zfill_str_nat: "zfill w (str_nat n) = replicate (nat w - length (str_nat n)) CHR ''0'' @ str_nat n"
proof -
  obtain c rest where cr: "str_nat n = c # rest" using str_nat_nonempty[of n] by (cases "str_nat n") auto
  have "c \<in> set ''0123456789''" using str_nat_digits[of n] cr by auto
  then have "c \<noteq> CHR ''+'' \<and> c \<noteq> CHR ''-''" by auto
  then show ?thesis by (simp add: zfill_def cr)
qed

lemma zfill_str_nat_digits: "set (zfill w (str_nat n)) \<subseteq> set ''0123456789''"
  using str_nat_digits[of n] by (auto simp: zfill_str_nat)

lemma str_nat_42: "str_nat 42 = ''42''"
  by (simp add: str_nat.simps digit_char_def)

lemma str_nat_big: "str_nat 999999999999999 = ''999999999999999''"
  by (simp add: str_nat.simps digit_char_def)

text \<open>
  A value from 0 to 999, the legal 0 to 255 included, is rendered as exactly three
  decimal digits, zero-padded.
\<close>

lemma three_digits:
  assumes "0 \<le> v" "v \<le> 999"
  shows "convert_digit_to_string_with_leading_zeros v =
         [digit_char (nat v div 100), digit_char (nat v div 10), digit_char (nat v)]"
proof -
  let ?n = "nat v"
  have n: "?n \<le> 999" using assms by simp
  consider "?n < 10" | "10 \<le> ?n" "?n < 100" | "100 \<le> ?n" by linarith
  then have "replicate (3 - length (str_nat ?n)) CHR ''0'' @ str_nat ?n =
             [digit_char (?n div 100), digit_char (?n div 10), digit_char ?n]"
  proof cases
    case 1
    then have "str_nat ?n = [digit_char ?n]" by (subst str_nat.simps) simp
    moreover have "digit_char (?n div 100) = CHR ''0''" "digit_char (?n div 10) = CHR ''0''"
      using 1 by (simp_all add: digit_char_def)
    ultimately show ?thesis by (simp add: numeral_2_eq_2)
  next
    case 2
    then have "?n div 10 < 10" by simp
    then have "str_nat (?n div 10) = [digit_char (?n div 10)]" by (subst str_nat.simps) simp
    then have "str_nat ?n = [digit_char (?n div 10), digit_char (?n mod 10)]"
      using 2 by (subst str_nat.simps) simp
    moreover have "digit_char (?n div 100) = CHR ''0''" using 2 by (simp add: digit_char_def)
    moreover have "digit_char (?n mod 10) = digit_char ?n" by (simp add: digit_char_def)
    ultimately show ?thesis by simp
  next
    case 3
    have d10: "\<not> ?n div 10 < 10" using 3 by simp
    have "?n div 10 div 10 < 10" using n by simp
    then have "str_nat (?n div 10 div 10) = [digit_char (?n div 10 div 10)]"
      by (subst str_nat.simps) simp
    then have "str_nat (?n div 10) = [digit_char (?n div 10 div 10), digit_char (?n div 10 mod 10)]"
      using d10 by (subst str_nat.simps) simp
    then have "str_nat ?n = [digit_char (?n div 10 div 10), digit_char (?n div 10 mod 10), digit_char (?n mod 10)]"
      using 3 by (subst str_nat.simps) simp
    moreover have "?n div 10 div 10 = ?n div 100" by (simp add: div_mult2_eq[symmetric])
    moreover have "digit_char (?n mod 10) = digit_char ?n" "digit_char (?n div 10 mod 10) = digit_char (?n div 10)"
      by (simp_all add: digit_char_def)
    ultimately show ?thesis by simp
  qed
  then show ?thesis using assms by (simp add: convert_digit_to_string_with_leading_zeros_def)
qed

text \<open>The two-tube frame that the specification gives as its example.\<close>

lemma frame_example:
  "display_generate_command_string
     (three_tube_display\<lparr>number_of_tubes_in_display := 2,
        tubes := [off_tube\<lparr>digit := ''5'', brightness := 128, blue := 255\<rparr>, off_tube]\<rparr>) =
   ''$-,N,N,000,000,000,000$5,N,N,128,000,000,255!''"
  by (simp add: display_generate_command_string_def tube_generate_command_string_def
      three_tube_display_def off_tube_def convert_from_bool_to_yn_def
      convert_digit_to_string_with_leading_zeros_def str_nat.simps digit_char_def numeral_2_eq_2)

subsection \<open>The bulk setters\<close>

lemma fan_out_total:
  "(\<And>t. f t = (None, g t)) \<Longrightarrow> \<forall>i \<in> set is. i < length ts \<Longrightarrow>
   fan_out f is ts = (None, fold (\<lambda>i ts. ts[i := g (ts ! i)]) is ts)"
  by (induction "is" arbitrary: ts) simp_all

lemma fold_update_upt:
  "k \<le> length ts \<Longrightarrow>
   fold (\<lambda>i ts. ts[i := g (ts ! i)]) [0..<k] ts = map g (take k ts) @ drop k ts"
proof (induction k)
  case 0
  then show ?case by simp
next
  case (Suc k)
  then have k: "k < length ts" by simp
  have "fold (\<lambda>i ts. ts[i := g (ts ! i)]) [0..<Suc k] ts =
        (map g (take k ts) @ drop k ts)[k := g ((map g (take k ts) @ drop k ts) ! k)]"
    using Suc by simp
  also have "\<dots> = map g (take (Suc k) ts) @ drop (Suc k) ts"
    using k by (simp add: list_update_append nth_append take_Suc_conv_app_nth Cons_nth_drop_Suc[symmetric])
  finally show ?case .
qed

lemma fan_out_all:
  assumes "\<And>t. f t = (None, g t)"
  shows "fan_out f [0..<length ts] ts = (None, map g ts)"
proof -
  have "fan_out f [0..<length ts] ts = (None, fold (\<lambda>i ts. ts[i := g (ts ! i)]) [0..<length ts] ts)"
    by (rule fan_out_total) (use assms in auto)
  then show ?thesis by (simp add: fold_update_upt)
qed

lemma set_brightness_in_range: "0 \<le> v \<Longrightarrow> v \<le> 255 \<Longrightarrow> set_brightness v t = (None, t\<lparr>brightness := v\<rparr>)"
  by (simp add: set_brightness_def)

lemma set_red_in_range: "0 \<le> v \<Longrightarrow> v \<le> 255 \<Longrightarrow> set_red v t = (None, t\<lparr>red := v\<rparr>)"
  by (simp add: set_red_def)

lemma set_green_in_range: "0 \<le> v \<Longrightarrow> v \<le> 255 \<Longrightarrow> set_green v t = (None, t\<lparr>green := v\<rparr>)"
  by (simp add: set_green_def)

lemma set_blue_in_range: "0 \<le> v \<Longrightarrow> v \<le> 255 \<Longrightarrow> set_blue v t = (None, t\<lparr>blue := v\<rparr>)"
  by (simp add: set_blue_def)

lemma display_set_brightness_result:
  assumes "display_ok d"
  shows "display_set_brightness v d =
     (if 0 \<le> v \<and> v \<le> 255
      then (None, d\<lparr>display_brightness := v, tubes := map (\<lambda>t. t\<lparr>brightness := v\<rparr>) (tubes d)\<rparr>)
      else (Some (ValueError ''Brightness must be between 0-255''), d))"
proof (cases "0 \<le> v \<and> v \<le> 255")
  case True
  have "fan_out (set_brightness v) [0..<length (tubes d)] (tubes d) = (None, map (\<lambda>t. t\<lparr>brightness := v\<rparr>) (tubes d))"
    by (rule fan_out_all) (use True in \<open>simp add: set_brightness_in_range\<close>)
  with True assms show ?thesis
    by (simp add: display_set_brightness_def display_ok_def)
next
  case False
  then show ?thesis by (auto simp: display_set_brightness_def)
qed

lemma display_set_red_result:
  assumes "display_ok d"
  shows "display_set_red v d =
     (if 0 \<le> v \<and> v \<le> 255
      then (None, d\<lparr>display_red := v, tubes := map (\<lambda>t. t\<lparr>red := v\<rparr>) (tubes d)\<rparr>)
      else (Some (ValueError ''Red must be between 0-255''), d))"
proof (cases "0 \<le> v \<and> v \<le> 255")
  case True
  have "fan_out (set_red v) [0..<length (tubes d)] (tubes d) = (None, map (\<lambda>t. t\<lparr>red := v\<rparr>) (tubes d))"
    by (rule fan_out_all) (use True in \<open>simp add: set_red_in_range\<close>)
  with True assms show ?thesis
    by (simp add: display_set_red_def display_ok_def)
next
  case False
  then show ?thesis by (auto simp: display_set_red_def)
qed

lemma display_set_green_result:
  assumes "display_ok d"
  shows "display_set_green v d =
     (if 0 \<le> v \<and> v \<le> 255
      then (None, d\<lparr>display_green := v, tubes := map (\<lambda>t. t\<lparr>green := v\<rparr>) (tubes d)\<rparr>)
      else (Some (ValueError ''Green must be between 0-255''), d))"
proof (cases "0 \<le> v \<and> v \<le> 255")
  case True
  have "fan_out (set_green v) [0..<length (tubes d)] (tubes d) = (None, map (\<lambda>t. t\<lparr>green := v\<rparr>) (tubes d))"
    by (rule fan_out_all) (use True in \<open>simp add: set_green_in_range\<close>)
  with True assms show ?thesis
    by (simp add: display_set_green_def display_ok_def)
next
  case False
  then show ?thesis by (auto simp: display_set_green_def)
qed

lemma display_set_blue_result:
  assumes "display_ok d"
  shows "display_set_blue v d =
     (if 0 \<le> v \<and> v \<le> 255
      then (None, d\<lparr>display_blue := v, tubes := map (\<lambda>t. t\<lparr>blue := v\<rparr>) (tubes d)\<rparr>)
      else (Some (ValueError ''Blue must be between 0-255''), d))"
proof (cases "0 \<le> v \<and> v \<le> 255")
  case True
  have "fan_out (set_blue v) [0..<length (tubes d)] (tubes d) = (None, map (\<lambda>t. t\<lparr>blue := v\<rparr>) (tubes d))"
    by (rule fan_out_all) (use True in \<open>simp add: set_blue_in_range\<close>)
  with True assms show ?thesis
    by (simp add: display_set_blue_def display_ok_def)
next
  case False
  then show ?thesis by (auto simp: display_set_blue_def)
qed

text \<open>
  C6. On a Display that owns as many tubes as its tube count says, each of the four bulk
  setters, given a value \<open>v\<close> from 0 to 255, returns normally, stores \<open>v\<close> as the
  display-level value and overwrites that field of every owned tube with \<open>v\<close>, leaving
  everything else as it was; given a value outside 0 to 255 it raises the ValueError of
  its field and changes nothing.
\<close>

theorem bulk_setters_overwrite_every_tube:
  assumes "display_ok d"
  shows
  "display_set_brightness v d =
     (if 0 \<le> v \<and> v \<le> 255
      then (None, d\<lparr>display_brightness := v, tubes := map (\<lambda>t. t\<lparr>brightness := v\<rparr>) (tubes d)\<rparr>)
      else (Some (ValueError ''Brightness must be between 0-255''), d)) \<and>
   display_set_red v d =
     (if 0 \<le> v \<and> v \<le> 255
      then (None, d\<lparr>display_red := v, tubes := map (\<lambda>t. t\<lparr>red := v\<rparr>) (tubes d)\<rparr>)
      else (Some (ValueError ''Red must be between 0-255''), d)) \<and>
   display_set_green v d =
     (if 0 \<le> v \<and> v \<le> 255
      then (None, d\<lparr>display_green := v, tubes := map (\<lambda>t. t\<lparr>green := v\<rparr>) (tubes d)\<rparr>)
      else (Some (ValueError ''Green must be between 0-255''), d)) \<and>
   display_set_blue v d =
     (if 0 \<le> v \<and> v \<le> 255
      then (None, d\<lparr>display_blue := v, tubes := map (\<lambda>t. t\<lparr>blue := v\<rparr>) (tubes d)\<rparr>)
      else (Some (ValueError ''Blue must be between 0-255''), d))"
  by (intro conjI display_set_brightness_result[OF assms] display_set_red_result[OF assms]
      display_set_green_result[OF assms] display_set_blue_result[OF assms])

theorem bulk_setters_overwrite_every_tube_witness:
  "display_ok three_tube_display \<and>
   map brightness (tubes (snd (display_set_brightness 128 three_tube_display))) = [128, 128, 128] \<and>
   display_brightness (snd (display_set_brightness 128 three_tube_display)) = 128 \<and>
   map red (tubes (snd (display_set_red 255 three_tube_display))) = [255, 255, 255] \<and>
   map green (tubes (snd (display_set_green 0 three_tube_display))) = [0, 0, 0] \<and>
   map blue (tubes (snd (display_set_blue 7 three_tube_display))) = [7, 7, 7] \<and>
   display_set_blue 256 three_tube_display = (Some (ValueError ''Blue must be between 0-255''), three_tube_display)"
  using bulk_setters_overwrite_every_tube [of three_tube_display 128] bulk_setters_overwrite_every_tube [of three_tube_display 255]
    bulk_setters_overwrite_every_tube [of three_tube_display 0] bulk_setters_overwrite_every_tube [of three_tube_display 7] bulk_setters_overwrite_every_tube [of three_tube_display 256]
  by (simp add: display_ok_def three_tube_display_def)

subsection \<open>Displaying a number\<close>

lemma assign_digits_result:
  "i + length ts \<le> length s \<Longrightarrow>
   assign_digits s i ts = (None, map (\<lambda>(t, c). snd (set_digit [c] t)) (zip ts (drop i s)))"
proof (induction ts arbitrary: i)
  case Nil
  then show ?case by simp
next
  case (Cons t ts)
  then have i: "i < length s" and rest: "(i + 1) + length ts \<le> length s" by simp_all
  obtain t' where t': "set_digit [s ! i] t = (None, t')"
    using set_digit_no_error[of "[s ! i]" t] by (cases "set_digit [s ! i] t") simp
  have d: "drop i s = s ! i # drop (Suc i) s" using i by (simp add: Cons_nth_drop_Suc)
  show ?case using i t' Cons.IH[OF rest] by (simp add: d)
qed

lemma set_digit_digit_char:
  "c \<in> set ''0123456789'' \<Longrightarrow> snd (set_digit [c] t) = t\<lparr>digit := [c]\<rparr>"
  by (auto simp: set_digit_def)

lemma assign_padded:
  assumes "length ts \<le> nat w"
  shows "assign_digits (zfill w (str_nat n)) 0 ts =
         (None, map2 (\<lambda>t c. t\<lparr>digit := [c]\<rparr>) ts (zfill w (str_nat n)))"
proof -
  let ?p = "zfill w (str_nat n)"
  have "0 + length ts \<le> length ?p" using assms by (simp add: length_zfill)
  then have "assign_digits ?p 0 ts = (None, map (\<lambda>(t, c). snd (set_digit [c] t)) (zip ts (drop 0 ?p)))"
    by (rule assign_digits_result)
  moreover have "map (\<lambda>(t, c). snd (set_digit [c] t)) (zip ts ?p) = map2 (\<lambda>t c. t\<lparr>digit := [c]\<rparr>) ts ?p"
  proof (rule map_cong[OF refl])
    fix x assume "x \<in> set (zip ts ?p)"
    then have "snd x \<in> set ?p" using set_zip_rightD[of "fst x" "snd x" ts ?p] by simp
    then have "snd x \<in> set ''0123456789''" using zfill_str_nat_digits[of w n] by blast
    then show "(case x of (t, c) \<Rightarrow> snd (set_digit [c] t)) = (case x of (t, c) \<Rightarrow> t\<lparr>digit := [c]\<rparr>)"
      by (cases x) (simp add: set_digit_digit_char del: set_simps)
  qed
  ultimately show ?thesis by simp
qed

text \<open>
  What \<^verbatim>\<open>set_display_number\<close> does whenever it gets past its guard: the number's
  decimal string, left-padded with zeros to the tube count, is written to the tubes
  character by character, the first tube taking the first (most significant) character.
\<close>

lemma set_display_number_assigns:
  assumes "0 \<le> number" "display_ok d"
    and "number = 0 \<or> int_log10 number + 1 \<le> number_of_tubes_in_display d"
  shows "set_display_number int_log10 number d =
         (None, d\<lparr>tubes := map2 (\<lambda>t c. t\<lparr>digit := [c]\<rparr>) (tubes d)
                             (zfill (number_of_tubes_in_display d) (str_int number))\<rparr>)"
proof -
  have s: "str_int number = str_nat (nat number)" using assms(1) by (simp add: str_int_def)
  have "length (tubes d) \<le> nat (number_of_tubes_in_display d)" using assms(2) by (simp add: display_ok_def)
  then have a: "assign_digits (zfill (number_of_tubes_in_display d) (str_nat (nat number))) 0 (tubes d) =
         (None, map2 (\<lambda>t c. t\<lparr>digit := [c]\<rparr>) (tubes d) (zfill (number_of_tubes_in_display d) (str_nat (nat number))))"
    by (rule assign_padded)
  have "set_display_number int_log10 number d =
        (case assign_digits (zfill (number_of_tubes_in_display d) (str_int number)) 0 (tubes d) of
           (e, ts) \<Rightarrow> (e, d\<lparr>tubes := ts\<rparr>))"
    using assms(1,3) unfolding set_display_number_def by (cases "number = 0") simp_all
  then show ?thesis unfolding s a by simp
qed

lemma set_display_number_zero_example:
  "map digit (tubes (snd (set_display_number f 0 three_tube_display))) = [''0'', ''0'', ''0'']"
  by (simp add: set_display_number_def three_tube_display_def str_int_def str_nat_0 zfill_def set_digit_def numeral_2_eq_2 numeral_3_eq_3)

lemma set_display_number_42_example:
  "f 42 = 1 \<Longrightarrow> map digit (tubes (snd (set_display_number f 42 three_tube_display))) = [''0'', ''4'', ''2'']"
  by (simp add: set_display_number_def three_tube_display_def str_int_def str_nat_42 zfill_def set_digit_def numeral_2_eq_2 numeral_3_eq_3)

text \<open>
  When \<open>int(log10(number))\<close> is what it is meant to be, one less than the number of
  decimal digits, the call raises exactly for a negative number and for a number with
  more digits than there are tubes.
\<close>

lemma set_display_number_errors_exact:
  assumes exact: "\<And>n. 0 < n \<Longrightarrow> int_log10 n = int (length (str_int n)) - 1"
    and ok: "display_ok d" and one: "1 \<le> number_of_tubes_in_display d"
  shows "fst (set_display_number int_log10 number d) =
         (if number < 0 then Some (ValueError ''Display number must be positive'')
          else if int (length (str_int number)) > number_of_tubes_in_display d
               then Some (ValueError ''Not enough tubes to display all digits'')
          else None)"
proof (cases "number < 0")
  case True
  then show ?thesis by (simp add: set_display_number_def)
next
  case nonneg: False
  show ?thesis
  proof (cases "number = 0")
    case True
    have "str_int 0 = ''0''" by (simp add: str_int_def str_nat_0)
    with True one show ?thesis
      using set_display_number_assigns[of 0 d int_log10] ok by simp
  next
    case False
    with nonneg have pos: "0 < number" by simp
    show ?thesis
    proof (cases "int_log10 number + 1 > number_of_tubes_in_display d")
      case True
      with pos show ?thesis using exact[OF pos] by (simp add: set_display_number_def)
    next
      case False
      then have "int_log10 number + 1 \<le> number_of_tubes_in_display d" by simp
      then show ?thesis
        using set_display_number_assigns[of number d int_log10] ok pos exact[OF pos] by simp
    qed
  qed
qed

text \<open>
  C4 fails where the floating-point logarithm is rounded up to the next integer. The double nearest to \<open>log10(999999999999999)\<close> is \<open>15.0\<close>, so that
  \<^verbatim>\<open>int(log10(999999999999999))\<close> is 15 and the guard compares 16 with the tube count.
  On a display of 15 tubes the number has 15 decimal digits, as many as there are tubes,
  and yet the call leaves the display as it was: no tube receives a digit.
\<close>

theorem set_display_number_fifteen_nines_unassigned:
  "int_log10 999999999999999 = 15 \<Longrightarrow> number_of_tubes_in_display d = 15 \<Longrightarrow>
   snd (set_display_number int_log10 999999999999999 d) = d \<and>
   length (str_int 999999999999999) = 15"
  by (simp add: set_display_number_def str_int_def str_nat_big)

theorem set_display_number_fifteen_nines_unassigned_witness:
  "(\<lambda>n. 15) (999999999999999::int) = (15::int) \<and> number_of_tubes_in_display fifteen_tube_display = 15 \<and>
   snd (set_display_number (\<lambda>n. 15) 999999999999999 fifteen_tube_display) = fifteen_tube_display \<and>
   length (str_int 999999999999999) = 15"
  using set_display_number_fifteen_nines_unassigned [of "\<lambda>n. 15" fifteen_tube_display]
  by (simp add: fifteen_tube_display_def)

text \<open>
  C5 fails at the same input, for the same reason: with 15 tubes and the 15-digit
  number 999999999999999 the call raises the "not enough tubes" ValueError although the
  digit count does not exceed the tube count.
\<close>

theorem set_display_number_fifteen_nines_rejected:
  "int_log10 999999999999999 = 15 \<Longrightarrow> number_of_tubes_in_display d = 15 \<Longrightarrow>
   fst (set_display_number int_log10 999999999999999 d) =
     Some (ValueError ''Not enough tubes to display all digits'') \<and>
   \<not> int (length (str_int 999999999999999)) > number_of_tubes_in_display d"
  by (simp add: set_display_number_def str_int_def str_nat_big)

theorem set_display_number_fifteen_nines_rejected_witness:
  "(\<lambda>n. 15) (999999999999999::int) = (15::int) \<and>
   number_of_tubes_in_display fifteen_tube_display = 15 \<and>
   fst (set_display_number (\<lambda>n. 15) 999999999999999 fifteen_tube_display) =
     Some (ValueError ''Not enough tubes to display all digits'') \<and>
   \<not> int (length (str_int 999999999999999)) > number_of_tubes_in_display fifteen_tube_display"
  using set_display_number_fifteen_nines_rejected [of "\<lambda>n. 15" fifteen_tube_display]
  by (simp add: fifteen_tube_display_def)

subsection \<open>The legal ranges of the fields\<close>

lemma set_digit_single_snd:
  "snd (set_digit [c] t) = t\<lparr>digit := (if c \<in> set ''0123456789-'' then [c] else ''-'')\<rparr>"
  unfolding set_digit_def str_in_single by simp

lemma reset_result:
  "reset d =
     (None, d\<lparr>tubes := map (\<lambda>t. t\<lparr>digit := ''-'', brightness := 0, red := 0, green := 0,
                                   blue := 0\<rparr>) (tubes d)\<rparr>)"
proof -
  have "for_each_tube reset_tube (tubes d) =
        (None, map (\<lambda>t. t\<lparr>digit := ''-'', brightness := 0, red := 0, green := 0, blue := 0\<rparr>)
                 (tubes d))"
    by (rule for_each_tube_total) (rule reset_tube_result)
  then show ?thesis by (simp add: reset_def)
qed

lemma default_tube_off: "default_tube = Inr off_tube"
  by (simp add: default_tube_def tube_init_def and_then_def set_digit_def set_left_decimal_point_def
      set_right_decimal_point_def set_brightness_def set_red_def set_green_def set_blue_def
      off_tube_def blank_fields_def)

lemma legal_digit_single: "legal_digit (if c \<in> set ''0123456789-'' then [c] else ''-'')"
  by (simp add: legal_digit_def)

lemma set_digit_keeps_ok:
  assumes "length v = 1" "tube_ok t"
  shows "tube_ok (snd (set_digit v t))"
proof -
  from assms(1) obtain c where v: "v = [c]" by (cases v) auto
  have "snd (set_digit [c] t) = t\<lparr>digit := (if c \<in> set ''0123456789-'' then [c] else ''-'')\<rparr>"
    by (rule set_digit_single_snd)
  then show ?thesis using assms(2) legal_digit_single[of c]
    by (simp add: v tube_ok_def del: set_simps)
qed

lemma off_tube_ok: "tube_ok off_tube"
  by (simp add: tube_ok_def off_tube_def legal_digit_def)

lemma tube_do_keeps_ok:
  assumes "one_character op" "tube_ok t"
  shows "tube_ok (snd (tube_do op t))"
proof (cases op)
  case (SetDigit v)
  then show ?thesis using assms set_digit_keeps_ok by simp
next
  case (SetLeftDecimalPoint v)
  then show ?thesis using assms(2)
    by (cases v) (simp_all add: tube_ok_def set_left_decimal_point_def)
next
  case (SetRightDecimalPoint v)
  then show ?thesis using assms(2)
    by (cases v) (simp_all add: tube_ok_def set_right_decimal_point_def)
next
  case (SetBrightness v)
  then show ?thesis using assms(2) by (simp add: tube_ok_def set_brightness_def)
next
  case (SetRed v)
  then show ?thesis using assms(2) by (simp add: tube_ok_def set_red_def)
next
  case (SetGreen v)
  then show ?thesis using assms(2) by (simp add: tube_ok_def set_green_def)
next
  case (SetBlue v)
  then show ?thesis using assms(2) by (simp add: tube_ok_def set_blue_def)
next
  case TurnOff
  then show ?thesis by (simp add: turn_off_result off_tube_ok)
qed

lemma fan_out_length: "length (snd (fan_out f is ts)) = length ts"
proof (induction "is" arbitrary: ts)
  case Nil
  then show ?case by simp
next
  case (Cons i "is")
  show ?case
  proof (cases "i < length ts")
    case True
    obtain e t' where ft: "f (ts ! i) = (e, t')" by (cases "f (ts ! i)")
    show ?thesis using True ft Cons[of "ts[i := t']"] by (cases e) simp_all
  next
    case False
    then show ?thesis by simp
  qed
qed

lemma list_all_update: "list_all P ts \<Longrightarrow> P t \<Longrightarrow> list_all P (ts[i := t])"
  by (induction ts arbitrary: i) (auto split: nat.splits)

lemma fan_out_keeps_ok:
  assumes f: "\<And>t. tube_ok t \<Longrightarrow> tube_ok (snd (f t))"
  shows "list_all tube_ok ts \<Longrightarrow> list_all tube_ok (snd (fan_out f is ts))"
proof (induction "is" arbitrary: ts)
  case Nil
  then show ?case by simp
next
  case (Cons i "is")
  show ?case
  proof (cases "i < length ts")
    case True
    obtain e t' where ft: "f (ts ! i) = (e, t')" by (cases "f (ts ! i)")
    have "tube_ok (ts ! i)" using Cons.prems True by (simp add: list_all_length)
    then have "tube_ok t'" using f[of "ts ! i"] ft by simp
    then have upd: "list_all tube_ok (ts[i := t'])" using Cons.prems by (simp add: list_all_update)
    show ?thesis using True ft upd Cons.IH[OF upd] by (cases e) simp_all
  next
    case False
    then show ?thesis using Cons.prems by simp
  qed
qed

lemma for_each_tube_length: "length (snd (for_each_tube f ts)) = length ts"
  by (induction ts) (auto split: prod.splits option.splits)

lemma for_each_tube_keeps_ok:
  assumes f: "\<And>t. tube_ok t \<Longrightarrow> tube_ok (snd (f t))"
  shows "list_all tube_ok ts \<Longrightarrow> list_all tube_ok (snd (for_each_tube f ts))"
proof (induction ts)
  case Nil
  then show ?case by simp
next
  case (Cons t ts)
  obtain e t' where ft: "f t = (e, t')" by (cases "f t")
  have t': "tube_ok t'" using f[of t] ft Cons.prems by simp
  obtain e2 ts' where r: "for_each_tube f ts = (e2, ts')" by (cases "for_each_tube f ts")
  have "list_all tube_ok ts'" using Cons r by simp
  then show ?case using ft t' r Cons.prems by (cases e) simp_all
qed

lemma assign_digits_length: "length (snd (assign_digits s i ts)) = length ts"
proof (induction ts arbitrary: i)
  case Nil
  then show ?case by simp
next
  case (Cons t ts)
  obtain e t' where ft: "set_digit [s ! i] t = (e, t')" by (cases "set_digit [s ! i] t")
  obtain e2 ts' where r: "assign_digits s (i + 1) ts = (e2, ts')"
    by (cases "assign_digits s (i + 1) ts")
  have "length ts' = length ts" using Cons[of "i + 1"] r by simp
  then show ?case using ft r by (cases e) simp_all
qed

lemma assign_digits_keeps_ok:
  "list_all tube_ok ts \<Longrightarrow> list_all tube_ok (snd (assign_digits s i ts))"
proof (induction ts arbitrary: i)
  case Nil
  then show ?case by simp
next
  case (Cons t ts)
  show ?case
  proof (cases "i < length s")
    case True
    obtain t' where ft: "set_digit [s ! i] t = (None, t')"
      using set_digit_no_error[of "[s ! i]" t] by (cases "set_digit [s ! i] t") simp
    have t': "tube_ok t'" using set_digit_keeps_ok[of "[s ! i]" t] ft Cons.prems by simp
    obtain e2 ts' where r: "assign_digits s (i + 1) ts = (e2, ts')"
      by (cases "assign_digits s (i + 1) ts")
    have "list_all tube_ok ts'" using Cons.IH[of "i + 1"] Cons.prems r by simp
    then show ?thesis using True ft t' r by simp
  next
    case False
    then show ?thesis using Cons.prems by simp
  qed
qed

lemma reset_tube_keeps_ok: "tube_ok (snd (reset_tube t))"
  by (simp add: reset_tube_result tube_ok_def legal_digit_def)

lemma fan_out_lengthD: "fan_out f is ts = (e, ts') \<Longrightarrow> length ts' = length ts"
  using fan_out_length[of f "is" ts] by simp

lemma fan_out_okD:
  "fan_out f is ts = (e, ts') \<Longrightarrow> (\<And>t. tube_ok t \<Longrightarrow> tube_ok (snd (f t))) \<Longrightarrow>
   list_all tube_ok ts \<Longrightarrow> list_all tube_ok ts'"
  using fan_out_keeps_ok[of f ts "is"] by simp

lemma display_set_brightness_keeps:
  "(display_ok d \<longrightarrow> display_ok (snd (display_set_brightness v d))) \<and>
   (tubes_ok d \<longrightarrow> tubes_ok (snd (display_set_brightness v d)))"
proof -
  obtain e ts where r: "fan_out (set_brightness v) [0..<nat (number_of_tubes_in_display d)] (tubes d) = (e, ts)"
    by (cases "fan_out (set_brightness v) [0..<nat (number_of_tubes_in_display d)] (tubes d)")
  have l: "length ts = length (tubes d)" using r by (rule fan_out_lengthD)
  have k: "list_all tube_ok ts" if "list_all tube_ok (tubes d)"
    using r _ that by (rule fan_out_okD) (simp add: set_brightness_def tube_ok_def)
  show ?thesis using l k by (simp add: display_set_brightness_def display_ok_def tubes_ok_def r)
qed

lemma display_set_red_keeps:
  "(display_ok d \<longrightarrow> display_ok (snd (display_set_red v d))) \<and>
   (tubes_ok d \<longrightarrow> tubes_ok (snd (display_set_red v d)))"
proof -
  obtain e ts where r: "fan_out (set_red v) [0..<nat (number_of_tubes_in_display d)] (tubes d) = (e, ts)"
    by (cases "fan_out (set_red v) [0..<nat (number_of_tubes_in_display d)] (tubes d)")
  have l: "length ts = length (tubes d)" using r by (rule fan_out_lengthD)
  have k: "list_all tube_ok ts" if "list_all tube_ok (tubes d)"
    using r _ that by (rule fan_out_okD) (simp add: set_red_def tube_ok_def)
  show ?thesis using l k by (simp add: display_set_red_def display_ok_def tubes_ok_def r)
qed

lemma display_set_green_keeps:
  "(display_ok d \<longrightarrow> display_ok (snd (display_set_green v d))) \<and>
   (tubes_ok d \<longrightarrow> tubes_ok (snd (display_set_green v d)))"
proof -
  obtain e ts where r: "fan_out (set_green v) [0..<nat (number_of_tubes_in_display d)] (tubes d) = (e, ts)"
    by (cases "fan_out (set_green v) [0..<nat (number_of_tubes_in_display d)] (tubes d)")
  have l: "length ts = length (tubes d)" using r by (rule fan_out_lengthD)
  have k: "list_all tube_ok ts" if "list_all tube_ok (tubes d)"
    using r _ that by (rule fan_out_okD) (simp add: set_green_def tube_ok_def)
  show ?thesis using l k by (simp add: display_set_green_def display_ok_def tubes_ok_def r)
qed

lemma display_set_blue_keeps:
  "(display_ok d \<longrightarrow> display_ok (snd (display_set_blue v d))) \<and>
   (tubes_ok d \<longrightarrow> tubes_ok (snd (display_set_blue v d)))"
proof -
  obtain e ts where r: "fan_out (set_blue v) [0..<nat (number_of_tubes_in_display d)] (tubes d) = (e, ts)"
    by (cases "fan_out (set_blue v) [0..<nat (number_of_tubes_in_display d)] (tubes d)")
  have l: "length ts = length (tubes d)" using r by (rule fan_out_lengthD)
  have k: "list_all tube_ok ts" if "list_all tube_ok (tubes d)"
    using r _ that by (rule fan_out_okD) (simp add: set_blue_def tube_ok_def)
  show ?thesis using l k by (simp add: display_set_blue_def display_ok_def tubes_ok_def r)
qed

lemma reset_keeps:
  "(display_ok d \<longrightarrow> display_ok (snd (reset d))) \<and> tubes_ok (snd (reset d))"
  by (simp add: reset_result display_ok_def tubes_ok_def list_all_iff tube_ok_def
      legal_digit_def)

lemma set_display_number_keeps:
  "(display_ok d \<longrightarrow> display_ok (snd (set_display_number lg n d))) \<and>
   (tubes_ok d \<longrightarrow> tubes_ok (snd (set_display_number lg n d)))"
  by (simp add: set_display_number_def display_ok_def tubes_ok_def case_prod_beta
      assign_digits_length assign_digits_keeps_ok)

lemma send_command_keeps:
  "(display_ok d \<longrightarrow> display_ok (snd (send_command d))) \<and>
   (tubes_ok d \<longrightarrow> tubes_ok (snd (send_command d)))"
  by (simp add: send_command_def display_ok_def tubes_ok_def split: option.splits)

lemma on_tube_keeps:
  assumes "one_character tp"
  shows "(display_ok d \<longrightarrow> display_ok (snd (display_do lg (OnTube i tp) d))) \<and>
   (tubes_ok d \<longrightarrow> tubes_ok (snd (display_do lg (OnTube i tp) d)))"
proof (cases "i < length (tubes d)")
  case True
  obtain e t' where r: "tube_do tp (tubes d ! i) = (e, t')" by (cases "tube_do tp (tubes d ! i)")
  have "list_all tube_ok ((tubes d)[i := t'])" if a: "list_all tube_ok (tubes d)"
  proof -
    have "tube_ok (tubes d ! i)" using a True by (simp add: list_all_length)
    then have "tube_ok t'" using tube_do_keeps_ok[OF assms, of "tubes d ! i"] r by simp
    with a show ?thesis by (rule list_all_update)
  qed
  then show ?thesis using True r by (simp add: display_ok_def tubes_ok_def)
next
  case False
  then show ?thesis by simp
qed

lemma display_do_keeps:
  assumes "one_character_op op"
  shows "(display_ok d \<longrightarrow> display_ok (snd (display_do lg op d))) \<and>
         (tubes_ok d \<longrightarrow> tubes_ok (snd (display_do lg op d)))"
proof (cases op)
  case (OnTube i tp)
  then show ?thesis using assms on_tube_keeps[of tp d lg i] by simp
next
  case (DisplaySetBrightness v)
  then show ?thesis using display_set_brightness_keeps[of d v] by simp
next
  case (DisplaySetRed v)
  then show ?thesis using display_set_red_keeps[of d v] by simp
next
  case (DisplaySetGreen v)
  then show ?thesis using display_set_green_keeps[of d v] by simp
next
  case (DisplaySetBlue v)
  then show ?thesis using display_set_blue_keeps[of d v] by simp
next
  case Reset
  then show ?thesis using reset_keeps[of d] by simp
next
  case (SetDisplayNumber n)
  then show ?thesis using set_display_number_keeps[of d lg n] by simp
next
  case SendCommand
  then show ?thesis using send_command_keeps[of d] by simp
qed

text \<open>
  As long as every digit assigned from outside is a single character, every sequence of
  operations keeps every tube of a display within the legal ranges, and keeps the number
  of tubes equal to the tube count.
\<close>

lemma display_run_keeps:
  "list_all one_character_op ops \<Longrightarrow> display_ok d \<Longrightarrow> tubes_ok d \<Longrightarrow>
   display_ok (display_run lg ops d) \<and> tubes_ok (display_run lg ops d)"
proof (induction ops arbitrary: d)
  case Nil
  then show ?case by simp
next
  case (Cons op ops)
  then have "one_character_op op" and rest: "list_all one_character_op ops" by simp_all
  from display_do_keeps[OF this(1), of d lg] Cons.prems(2,3)
  have "display_ok (snd (display_do lg op d))" "tubes_ok (snd (display_do lg op d))" by simp_all
  from Cons.IH[OF rest this] show ?case by simp
qed

lemma and_then_keeps:
  assumes "\<And>s. P s \<Longrightarrow> P (snd (f s))" "\<And>s. P s \<Longrightarrow> P (snd (g s))" "P s"
  shows "P (snd (and_then f g s))"
proof -
  obtain e s' where r: "f s = (e, s')" by (cases "f s")
  have "P s'" using assms(1)[OF assms(3)] r by simp
  then show ?thesis using assms(2)[of s'] r by (cases e) (simp_all add: and_then_def)
qed

text \<open>A display that the constructor returns has both properties.\<close>

lemma display_init_ok:
  assumes "display_init S n name b r g bl = Inr d"
  shows "display_ok d \<and> tubes_ok d"
proof -
  let ?d0 = "\<lparr>number_of_tubes_in_display = n, tubes = replicate (nat n) off_tube,
               display_brightness = 0, display_red = 0, display_green = 0,
               display_blue = 0, serial_port_name = name,
               port = \<lparr>is_open = False, fault = None, written = []\<rparr>\<rparr>"
  let ?P = "\<lambda>d. display_ok d \<and> tubes_ok d"
  let ?run = "and_then (display_set_brightness b) (and_then (display_set_red r)
                (and_then (display_set_green g) (display_set_blue bl)))"
  have p0: "?P ?d0" by (simp add: display_ok_def tubes_ok_def list_all_iff off_tube_ok)
  have "?P (snd (?run ?d0))"
    by (intro and_then_keeps[where P = ?P] p0)
      (use display_set_brightness_keeps display_set_red_keeps display_set_green_keeps
        display_set_blue_keeps in blast)+
  moreover from assms obtain p where "d = (snd (?run ?d0))\<lparr>port := p\<rparr>"
    unfolding display_init_def default_tube_off
    by (auto split: if_splits sum.splits prod.splits option.splits)
  ultimately show ?thesis by (simp add: display_ok_def tubes_ok_def)
qed

text \<open>
  C9 fails for the digit. The comment of the setter lists the eleven legal characters,
  but its test is a substring test: assigning the string \<open>01\<close> to the digit of a tube
  raises nothing and stores \<open>01\<close>, which is not one of the legal single characters; the
  same happens through the constructor and through a tube of a display, and the tube then
  generates a string whose first field has two characters.
\<close>

theorem digit_range_broken_by_substring_test:
  "tube_ok off_tube \<and>
   tube_do (SetDigit ''01'') off_tube = (None, off_tube\<lparr>digit := ''01''\<rparr>) \<and>
   \<not> tube_ok (snd (tube_do (SetDigit ''01'') off_tube)) \<and>
   tube_init ''01'' (PyBool False) (PyBool False) 0 0 0 0 = Inr (off_tube\<lparr>digit := ''01''\<rparr>) \<and>
   \<not> tubes_ok (display_run lg [OnTube 0 (SetDigit ''01'')] three_tube_display) \<and>
   tube_generate_command_string (snd (tube_do (SetDigit ''01'') off_tube)) =
     ''$01,N,N,000,000,000,000''"
proof -
  have a: "tube_do (SetDigit ''01'') off_tube = (None, off_tube\<lparr>digit := ''01''\<rparr>)"
    by (simp add: set_digit_def)
  have b: "\<not> tube_ok (off_tube\<lparr>digit := ''01''\<rparr>)"
    by (simp add: tube_ok_def legal_digit_def)
  have c: "tube_init ''01'' (PyBool False) (PyBool False) 0 0 0 0 = Inr (off_tube\<lparr>digit := ''01''\<rparr>)"
    by (simp add: tube_init_def and_then_def set_digit_def set_left_decimal_point_def
      set_right_decimal_point_def set_brightness_def set_red_def set_green_def set_blue_def
      off_tube_def blank_fields_def)
  have d: "\<not> tubes_ok (display_run lg [OnTube 0 (SetDigit ''01'')] three_tube_display)"
    using b by (simp add: tubes_ok_def three_tube_display_def set_digit_def)
  have e: "tube_generate_command_string (off_tube\<lparr>digit := ''01''\<rparr>) = ''$01,N,N,000,000,000,000''"
    by (simp add: tube_generate_command_string_def off_tube_def convert_from_bool_to_yn_def
        leading_zeros_0)
  show ?thesis using a b c d e off_tube_ok by simp
qed

end
